theory Spec2Isabelle
  imports Main "HOL-Library.Mapping"
begin

section \<open>Pod records and the store of container arrays\<close>

text \<open>
  The Go program works on the Kubernetes API structs. Only the fields the program reads
  or writes are modelled one by one; the rest of a struct is one opaque field, compared
  by equality: the other volume sources of a volume, the sub-path and propagation of a
  mount, the resources, environment and ports of a container, and in a pod spec every
  field the sanitizer leaves alone (the ephemeral containers among them).

  A Go slice is a header that points into a backing array, and copying a struct copies
  the header only. \<^verbatim>\<open>dropProjectedVolumesAndMounts\<close> assigns to
  \<^verbatim>\<open>podSpec.Containers[i].VolumeMounts\<close>, an element of such a backing array, so the
  arrays of containers live in an explicit store: a slice of containers is the address
  of its backing array (\<open>None\<close> is the nil slice) and spans the whole array. The slices
  \<^verbatim>\<open>Volumes\<close> and \<^verbatim>\<open>VolumeMounts\<close> are only read element by element and replaced as a
  whole, never written in place, so they are plain lists (a nil slice and an empty one
  are both \<open>[]\<close>).
\<close>

type_synonym addr = nat

record Volume =
  Volume_Name :: string
  Projected :: "string option"
  OtherSources :: string

record VolumeMount =
  Mount_Name :: string
  MountPath :: string
  ReadOnly :: bool
  OtherMountFields :: string

record Container =
  Container_Name :: string
  Image :: string
  VolumeMounts :: "VolumeMount list"
  OtherContainerFields :: string

record PodSpec =
  Volumes :: "Volume list"
  InitContainers :: "addr option"
  Containers :: "addr option"
  NodeName :: string
  Hostname :: string
  OtherFields :: string

type_synonym store = "addr \<Rightarrow> Container list"

record OwnerReference =
  Kind :: string
  UID :: string
  Controller :: "bool option"

text \<open>
  \<^verbatim>\<open>Labels\<close> is a Go map: \<open>None\<close> is the nil map, which \<^verbatim>\<open>reflect.DeepEqual\<close>
  tells apart from an empty one.
\<close>

record Pod =
  Pod_Name :: string
  Labels :: "(string \<rightharpoonup> string) option"
  Annotations :: "string \<rightharpoonup> string"
  OwnerReferences :: "OwnerReference list"
  Spec :: PodSpec
  NominatedNodeName :: string

section \<open>Sanitization and semantic equality of pod specs\<close>

text \<open>The elements a slice of containers has in a store.\<close>

definition elems :: "store \<Rightarrow> addr option \<Rightarrow> Container list" where
  "elems st sl = (case sl of None \<Rightarrow> [] | Some a \<Rightarrow> st a)"

text \<open>
  The first loop of \<^verbatim>\<open>dropProjectedVolumesAndMounts\<close>: it appends the volumes without a
  projected source to \<^verbatim>\<open>volumes\<close> and enters the names of the others in the map
  \<^verbatim>\<open>projectedVolumeNames\<close> (a set: every value stored is \<^verbatim>\<open>true\<close>, and a missing key
  reads as \<^verbatim>\<open>false\<close>).
\<close>

fun volumesLoop :: "Volume list \<Rightarrow> Volume list \<times> string set \<Rightarrow> Volume list \<times> string set" where
  "volumesLoop [] acc = acc"
| "volumesLoop (v # vs) (volumes, projectedVolumeNames) =
     (if Projected v = None
      then volumesLoop vs (volumes @ [v], projectedVolumeNames)
      else volumesLoop vs (volumes, insert (Volume_Name v) projectedVolumeNames))"

text \<open>The inner loop over the mounts of one container, and the assignment to the element.\<close>

definition dropMounts :: "string set \<Rightarrow> Container \<Rightarrow> Container" where
  "dropMounts projectedVolumeNames c =
     c\<lparr>VolumeMounts := filter (\<lambda>mount. Mount_Name mount \<notin> projectedVolumeNames) (VolumeMounts c)\<rparr>"

text \<open>
  The loop \<^verbatim>\<open>for i := range podSpec.Containers\<close>: every element of the backing array is
  overwritten in place, so the store changes at the slice's address.
\<close>

definition dropMountsIn :: "string set \<Rightarrow> addr option \<Rightarrow> store \<Rightarrow> store" where
  "dropMountsIn projectedVolumeNames sl st =
     (case sl of
        None \<Rightarrow> st
      | Some a \<Rightarrow> st(a := map (dropMounts projectedVolumeNames) (st a)))"

text \<open>
  \<^verbatim>\<open>podSpec\<close> points to the callee's copy of the struct: the copy is returned updated,
  together with the store.
\<close>

definition dropProjectedVolumesAndMounts :: "PodSpec \<Rightarrow> store \<Rightarrow> PodSpec \<times> store" where
  "dropProjectedVolumesAndMounts podSpec st =
     (case volumesLoop (Volumes podSpec) ([], {}) of
        (volumes, projectedVolumeNames) \<Rightarrow>
          (podSpec\<lparr>Volumes := volumes\<rparr>,
           dropMountsIn projectedVolumeNames (InitContainers podSpec)
             (dropMountsIn projectedVolumeNames (Containers podSpec) st)))"

definition dropHostname :: "PodSpec \<Rightarrow> PodSpec" where
  "dropHostname podSpec = podSpec\<lparr>Hostname := ''''\<rparr>"

definition sanitizePodSpec :: "PodSpec \<Rightarrow> store \<Rightarrow> PodSpec \<times> store" where
  "sanitizePodSpec podSpec st =
     (case dropProjectedVolumesAndMounts podSpec st of
        (podSpec', st') \<Rightarrow> (dropHostname podSpec', st'))"

text \<open>
  What a spec denotes in a store: its fields with the slices of containers read out.
  \<^verbatim>\<open>apiequality.Semantic.DeepEqual\<close> (a library function, not of this repository)
  compares two specs field by field through their slices, an empty slice being the
  same as a nil one: it is equality of what the two specs denote.
\<close>

definition deepValue ::
  "store \<Rightarrow> PodSpec \<Rightarrow> Volume list \<times> Container list \<times> Container list \<times> string \<times> string \<times> string" where
  "deepValue st s =
     (Volumes s, elems st (InitContainers s), elems st (Containers s),
      NodeName s, Hostname s, OtherFields s)"

definition SemanticDeepEqual :: "store \<Rightarrow> PodSpec \<Rightarrow> PodSpec \<Rightarrow> bool" where
  "SemanticDeepEqual st s1 s2 \<longleftrightarrow> deepValue st s1 = deepValue st s2"

definition PodSpecSemanticallyEqual :: "PodSpec \<Rightarrow> PodSpec \<Rightarrow> store \<Rightarrow> bool \<times> store" where
  "PodSpecSemanticallyEqual p1 p2 st =
     (case sanitizePodSpec p1 st of
        (p1Spec, st1) \<Rightarrow>
          (case sanitizePodSpec p2 st1 of
             (p2Spec, st2) \<Rightarrow> (SemanticDeepEqual st2 p1Spec p2Spec, st2)))"

section \<open>The cache of unschedulable pods\<close>

record SimilarPodsSchedulingInfo =
  spec :: PodSpec
  labels :: "(string \<rightharpoonup> string) option"

text \<open>
  \<^verbatim>\<open>&&\<close> evaluates its right operand only when the left one holds, so the store is
  touched only when the labels agree.
\<close>

definition Match :: "SimilarPodsSchedulingInfo \<Rightarrow> Pod \<Rightarrow> store \<Rightarrow> bool \<times> store" where
  "Match psi pod st =
     (if Labels pod = labels psi
      then PodSpecSemanticallyEqual (Spec pod) (spec psi) st
      else (False, st))"

definition maxPodsPerOwnerRef :: nat where
  "maxPodsPerOwnerRef = 10"

record SimilarPodsScheduling =
  items :: "(string, SimilarPodsSchedulingInfo list) mapping"
  overflowingControllers :: "(string, bool) mapping"

definition NewSimilarPodsScheduling :: SimilarPodsScheduling where
  "NewSimilarPodsScheduling =
     \<lparr>items = Mapping.empty, overflowingControllers = Mapping.empty\<rparr>"

text \<open>The loop of \<^verbatim>\<open>IsSimilarUnschedulable\<close> over the stored infos, left at the first match.\<close>

fun matchLoop :: "SimilarPodsSchedulingInfo list \<Rightarrow> Pod \<Rightarrow> store \<Rightarrow> bool \<times> store" where
  "matchLoop [] pod st = (False, st)"
| "matchLoop (info # infos) pod st =
     (case Match info pod st of
        (True, st') \<Rightarrow> (True, st')
      | (False, st') \<Rightarrow> matchLoop infos pod st')"

text \<open>
  \<^verbatim>\<open>drain.ControllerRef\<close> and \<^verbatim>\<open>pod_utils.IsDaemonSetPod\<close> are called by the two
  functions below and are not among the sources: they are parameters, the first
  returning the owner reference (\<open>None\<close> for \<^verbatim>\<open>nil\<close>).
\<close>

definition IsSimilarUnschedulable ::
  "(Pod \<Rightarrow> OwnerReference option) \<Rightarrow> SimilarPodsScheduling \<Rightarrow> Pod \<Rightarrow> store \<Rightarrow> bool \<times> store" where
  "IsSimilarUnschedulable ControllerRef p pod st =
     (case ControllerRef pod of
        None \<Rightarrow> (False, st)
      | Some ref \<Rightarrow>
          (case Mapping.lookup (items p) (UID ref) of
             Some infos \<Rightarrow> matchLoop infos pod st
           | None \<Rightarrow> (False, st)))"

definition SetUnschedulable ::
  "(Pod \<Rightarrow> OwnerReference option) \<Rightarrow> (Pod \<Rightarrow> bool) \<Rightarrow>
   SimilarPodsScheduling \<Rightarrow> Pod \<Rightarrow> SimilarPodsScheduling" where
  "SetUnschedulable ControllerRef IsDaemonSetPod p pod =
     (case ControllerRef pod of
        None \<Rightarrow> p
      | Some ref \<Rightarrow>
          if IsDaemonSetPod pod then p
          else
            let uid = UID ref;
                pm = Mapping.lookup_default [] (items p) uid
            in if length pm \<ge> maxPodsPerOwnerRef
               then p\<lparr>overflowingControllers := Mapping.update uid True (overflowingControllers p)\<rparr>
               else p\<lparr>items := Mapping.update uid
                        (pm @ [\<lparr>spec = Spec pod, labels = Labels pod\<rparr>]) (items p)\<rparr>)"

definition OverflowingControllerCount :: "SimilarPodsScheduling \<Rightarrow> nat" where
  "OverflowingControllerCount p = Mapping.size (overflowingControllers p)"

section \<open>Initialization of the cluster snapshot\<close>

record Node =
  Node_Name :: string

text \<open>
  \<^verbatim>\<open>ClusterSnapshot\<close> is a Go interface; the function below calls three of its methods.
  An implementation is a record of the three, over its own state \<open>'s\<close> and its own
  errors \<open>'e\<close>; a method returns the \<^verbatim>\<open>error\<close> (\<open>None\<close> is \<^verbatim>\<open>nil\<close>) and the new state.
\<close>

record ('s, 'e) ClusterSnapshot =
  Clear :: "'s \<Rightarrow> 's"
  AddNode :: "Node \<Rightarrow> 's \<Rightarrow> 'e option \<times> 's"
  AddPod :: "Pod \<Rightarrow> string \<Rightarrow> 's \<Rightarrow> 'e option \<times> 's"

text \<open>How a call ends: it returns, or it panics with the value of \<^verbatim>\<open>err\<close>.\<close>

datatype ('s, 'e) outcome = Returned 's | Panicked "'e option" 's

fun addNodesLoop ::
  "('s, 'e) ClusterSnapshot \<Rightarrow> Node list \<Rightarrow> 'e option \<times> 's \<Rightarrow> 'e option \<times> 's" where
  "addNodesLoop snapshot [] (err, s) = (err, s)"
| "addNodesLoop snapshot (node # nodes) (err, s) =
     addNodesLoop snapshot nodes (AddNode snapshot node s)"

fun addPodsLoop ::
  "('s, 'e) ClusterSnapshot \<Rightarrow> Pod list \<Rightarrow> 'e option \<times> 's \<Rightarrow> ('s, 'e) outcome" where
  "addPodsLoop snapshot [] (err, s) = Returned s"
| "addPodsLoop snapshot (pod # pods) (err, s) =
     (if NodeName (Spec pod) \<noteq> ''''
      then addPodsLoop snapshot pods (AddPod snapshot pod (NodeName (Spec pod)) s)
      else if NominatedNodeName pod \<noteq> ''''
      then addPodsLoop snapshot pods (AddPod snapshot pod (NominatedNodeName pod) s)
      else Panicked err s)"

definition InitializeClusterSnapshotOrDie ::
  "('s, 'e) ClusterSnapshot \<Rightarrow> Node list \<Rightarrow> Pod list \<Rightarrow> 's \<Rightarrow> ('s, 'e) outcome" where
  "InitializeClusterSnapshotOrDie snapshot nodes pods s =
     addPodsLoop snapshot pods (addNodesLoop snapshot nodes (None, Clear snapshot s))"

section \<open>Definitions used to state the properties\<close>

subsection \<open>Sanitization as a value\<close>

text \<open>
  The words of the specification: sanitization strips the volumes that have a projected
  source and the volume mounts that refer to them, and clears the hostname. The
  definitions below say this of a spec as a value, without any store being written.
\<close>

definition projectedNames :: "PodSpec \<Rightarrow> string set" where
  "projectedNames s = Volume_Name ` set (filter (\<lambda>v. Projected v \<noteq> None) (Volumes s))"

definition withoutMountsOf :: "string set \<Rightarrow> Container \<Rightarrow> Container" where
  "withoutMountsOf names c =
     \<lparr>Container_Name = Container_Name c, Image = Image c,
      VolumeMounts = [m \<leftarrow> VolumeMounts c. Mount_Name m \<notin> names],
      OtherContainerFields = OtherContainerFields c\<rparr>"

definition sanitizedValue ::
  "store \<Rightarrow> PodSpec \<Rightarrow> Volume list \<times> Container list \<times> Container list \<times> string \<times> string \<times> string" where
  "sanitizedValue st s =
     ([v \<leftarrow> Volumes s. Projected v = None],
      map (withoutMountsOf (projectedNames s)) (elems st (InitContainers s)),
      map (withoutMountsOf (projectedNames s)) (elems st (Containers s)),
      NodeName s, '''', OtherFields s)"

text \<open>
  The signature of a pod is its labels and its sanitized spec; a pod has the signature
  of an info when both agree.
\<close>

definition sameSignature :: "store \<Rightarrow> Pod \<Rightarrow> SimilarPodsSchedulingInfo \<Rightarrow> bool" where
  "sameSignature st pod psi \<longleftrightarrow>
     Labels pod = labels psi \<and> sanitizedValue st (Spec pod) = sanitizedValue st (spec psi)"

text \<open>The backing arrays a spec refers to, and two specs that share none.\<close>

definition addrsOf :: "PodSpec \<Rightarrow> addr set" where
  "addrsOf s = set_option (Containers s) \<union> set_option (InitContainers s)"

definition separate :: "PodSpec \<Rightarrow> PodSpec \<Rightarrow> bool" where
  "separate p1 p2 \<longleftrightarrow> addrsOf p1 \<inter> addrsOf p2 = {}"

text \<open>Specs of which no two different ones share an array.\<close>

definition unshared :: "PodSpec list \<Rightarrow> bool" where
  "unshared specs \<longleftrightarrow> (\<forall>s \<in> set specs. \<forall>s' \<in> set specs. s = s' \<or> separate s s')"

subsection \<open>Reading the cache\<close>

text \<open>
  The info \<^verbatim>\<open>SetUnschedulable\<close> builds from a pod, the UID of a pod's controller, and
  the infos stored for a controller (\<^verbatim>\<open>p.items[uid]\<close>, empty when the key is missing).
\<close>

definition infoOf :: "Pod \<Rightarrow> SimilarPodsSchedulingInfo" where
  "infoOf pod = \<lparr>spec = Spec pod, labels = Labels pod\<rparr>"

definition uidOf :: "(Pod \<Rightarrow> OwnerReference option) \<Rightarrow> Pod \<Rightarrow> string option" where
  "uidOf ControllerRef pod = map_option UID (ControllerRef pod)"

definition stored :: "SimilarPodsScheduling \<Rightarrow> string \<Rightarrow> SimilarPodsSchedulingInfo list" where
  "stored p uid = Mapping.lookup_default [] (items p) uid"

text \<open>
  The controllers marked as overflowing in the course of a sequence of calls of
  \<^verbatim>\<open>SetUnschedulable\<close>: one entry for every call that takes the branch
  \<^verbatim>\<open>p.overflowingControllers[uid] = true\<close>.
\<close>

definition overflowMark ::
  "(Pod \<Rightarrow> OwnerReference option) \<Rightarrow> (Pod \<Rightarrow> bool) \<Rightarrow> SimilarPodsScheduling \<Rightarrow> Pod \<Rightarrow> string list" where
  "overflowMark ControllerRef IsDaemonSetPod p pod =
     (case ControllerRef pod of
        None \<Rightarrow> []
      | Some ref \<Rightarrow>
          if IsDaemonSetPod pod then []
          else if length (stored p (UID ref)) \<ge> maxPodsPerOwnerRef then [UID ref] else [])"

fun overflowMarks ::
  "(Pod \<Rightarrow> OwnerReference option) \<Rightarrow> (Pod \<Rightarrow> bool) \<Rightarrow> SimilarPodsScheduling \<Rightarrow> Pod list \<Rightarrow> string list" where
  "overflowMarks ControllerRef IsDaemonSetPod p [] = []"
| "overflowMarks ControllerRef IsDaemonSetPod p (pod # pods) =
     overflowMark ControllerRef IsDaemonSetPod p pod @
     overflowMarks ControllerRef IsDaemonSetPod (SetUnschedulable ControllerRef IsDaemonSetPod p pod) pods"

subsection \<open>Reading the initialization\<close>

text \<open>
  The words of the specification: a workload is bound to its explicit node assignment if
  present, otherwise to its nominated node if present.
\<close>

definition hasTarget :: "Pod \<Rightarrow> bool" where
  "hasTarget pod \<longleftrightarrow> \<not> (NodeName (Spec pod) = '''' \<and> NominatedNodeName pod = '''')"

definition bindTarget :: "Pod \<Rightarrow> string" where
  "bindTarget pod =
     (if NodeName (Spec pod) \<noteq> '''' then NodeName (Spec pod) else NominatedNodeName pod)"

definition snapshotOf :: "('s, 'e) outcome \<Rightarrow> 's" where
  "snapshotOf r = (case r of Returned s \<Rightarrow> s | Panicked err s \<Rightarrow> s)"

subsection \<open>A snapshot, the two helpers, and some pods\<close>

text \<open>The errors section 4.1 of the specification names, and a state for a snapshot.\<close>

datatype snapshotError = DuplicateNode | UnknownNode | InvalidBinding

type_synonym basicState = "(string, Node \<times> Pod list) mapping"

text \<open>
  Modelled from the spec: the implementation of \<^verbatim>\<open>ClusterSnapshot\<close>
  (\<^verbatim>\<open>NewBasicClusterSnapshot\<close>) is not among the sources. Section 4.1 of the
  specification gives its contract: a mapping from node name to the node and the
  workloads bound to it; \<^verbatim>\<open>Clear\<close> resets it to the empty state; \<^verbatim>\<open>AddNode\<close> registers a
  node with no bound workloads and fails with \<open>DuplicateNode\<close> if the name already
  exists; \<^verbatim>\<open>AddPod\<close> binds a workload to a named node and fails with \<open>UnknownNode\<close> if
  the node is absent and with \<open>InvalidBinding\<close> if the workload has neither an explicit
  assignment nor a nominated node; a failed call leaves the snapshot as it was.
\<close>

definition BasicClusterSnapshot :: "(basicState, snapshotError) ClusterSnapshot" where
  "BasicClusterSnapshot =
     \<lparr>Clear = (\<lambda>s. Mapping.empty),
      AddNode = (\<lambda>node s.
        case Mapping.lookup s (Node_Name node) of
          Some entry \<Rightarrow> (Some DuplicateNode, s)
        | None \<Rightarrow> (None, Mapping.update (Node_Name node) (node, []) s)),
      AddPod = (\<lambda>pod nodeName s.
        case Mapping.lookup s nodeName of
          None \<Rightarrow> (Some UnknownNode, s)
        | Some (node, pods) \<Rightarrow>
            if NodeName (Spec pod) = '''' \<and> NominatedNodeName pod = ''''
            then (Some InvalidBinding, s)
            else (None, Mapping.update nodeName (node, pods @ [pod]) s))\<rparr>"

text \<open>
  One pair of functions for the two helper parameters, to evaluate the cache at pods
  written out: the controller of a pod is its first owner reference whose
  \<^verbatim>\<open>Controller\<close> flag is set, and a pod is a daemon-set pod when that controller is of
  kind \<^verbatim>\<open>DaemonSet\<close> or the pod carries the annotation that declares it one.
\<close>

fun GetControllerOf :: "OwnerReference list \<Rightarrow> OwnerReference option" where
  "GetControllerOf [] = None"
| "GetControllerOf (r # rs) = (if Controller r = Some True then Some r else GetControllerOf rs)"

definition ownerControllerRef :: "Pod \<Rightarrow> OwnerReference option" where
  "ownerControllerRef pod = GetControllerOf (OwnerReferences pod)"

definition daemonSetByKindOrAnnotation :: "Pod \<Rightarrow> bool" where
  "daemonSetByKindOrAnnotation pod \<longleftrightarrow>
     (case ownerControllerRef pod of Some r \<Rightarrow> Kind r = ''DaemonSet'' | None \<Rightarrow> False)
     \<or> Annotations pod ''cluster-autoscaler.kubernetes.io/daemonset-pod'' = Some ''true''"

definition replicaSetRef :: OwnerReference where
  "replicaSetRef = \<lparr>Kind = ''ReplicaSet'', UID = ''rs-1'', Controller = Some True\<rparr>"

definition tokenVolume :: Volume where
  "tokenVolume =
     \<lparr>Volume_Name = ''token'', Projected = Some ''serviceAccountToken'', OtherSources = ''''\<rparr>"

definition dataVolume :: Volume where
  "dataVolume = \<lparr>Volume_Name = ''data'', Projected = None, OtherSources = ''emptyDir''\<rparr>"

definition tokenMount :: VolumeMount where
  "tokenMount = \<lparr>Mount_Name = ''token'', MountPath = ''/var/run/secrets'', ReadOnly = True,
                  OtherMountFields = ''''\<rparr>"

definition dataMount :: VolumeMount where
  "dataMount = \<lparr>Mount_Name = ''data'', MountPath = ''/data'', ReadOnly = False,
                 OtherMountFields = ''''\<rparr>"

definition appContainer :: "VolumeMount list \<Rightarrow> Container" where
  "appContainer mounts = \<lparr>Container_Name = ''app'', Image = ''web'', VolumeMounts = mounts,
                           OtherContainerFields = ''cpu=500m''\<rparr>"

definition sidecarContainer :: Container where
  "sidecarContainer = \<lparr>Container_Name = ''sidecar'', Image = ''proxy'', VolumeMounts = [dataMount],
                        OtherContainerFields = ''cpu=100m''\<rparr>"

text \<open>
  A store with three arrays of one container each. \<open>webSpec\<close> has a projected volume and
  a mount of it; \<open>bareSpec\<close> is the same spec without them, under another hostname;
  \<open>sharingSpec\<close> is \<open>bareSpec\<close> on the array of \<open>webSpec\<close>, as a shallow copy of that
  spec with another list of volumes has it; \<open>sidecarSpec\<close> is \<open>webSpec\<close> with another
  container, in an array of its own.
\<close>

definition webStore :: store where
  "webStore =
     (\<lambda>a. [])(1 := [appContainer [dataMount, tokenMount]], 2 := [appContainer [dataMount]],
             3 := [sidecarContainer])"

definition webSpec :: PodSpec where
  "webSpec = \<lparr>Volumes = [dataVolume, tokenVolume], InitContainers = None, Containers = Some 1,
               NodeName = '''', Hostname = ''web-1'', OtherFields = ''''\<rparr>"

definition bareSpec :: PodSpec where
  "bareSpec = \<lparr>Volumes = [dataVolume], InitContainers = None, Containers = Some 2,
                NodeName = '''', Hostname = ''web-2'', OtherFields = ''''\<rparr>"

definition sharingSpec :: PodSpec where
  "sharingSpec = bareSpec\<lparr>Containers := Some 1\<rparr>"

definition sidecarSpec :: PodSpec where
  "sidecarSpec = webSpec\<lparr>Containers := Some 3\<rparr>"

definition webPod :: Pod where
  "webPod = \<lparr>Pod_Name = ''web-1'', Labels = Some [''app'' \<mapsto> ''web''], Annotations = Map.empty,
              OwnerReferences = [replicaSetRef], Spec = webSpec, NominatedNodeName = ''''\<rparr>"

definition barePod :: Pod where
  "barePod = webPod\<lparr>Pod_Name := ''web-2'', Spec := bareSpec\<rparr>"

definition annotatedPod :: Pod where
  "annotatedPod = webPod\<lparr>Pod_Name := ''web-3'',
     Annotations := [''cluster-autoscaler.kubernetes.io/daemonset-pod'' \<mapsto> ''true'']\<rparr>"

definition sharingPod :: Pod where
  "sharingPod = webPod\<lparr>Pod_Name := ''web-4'', Spec := sharingSpec\<rparr>"

definition sidecarPod :: Pod where
  "sidecarPod = webPod\<lparr>Pod_Name := ''web-5'', Spec := sidecarSpec\<rparr>"

definition fullCache :: SimilarPodsScheduling where
  "fullCache = \<lparr>items = Mapping.update ''rs-1'' (replicate 10 (infoOf webPod)) Mapping.empty,
                 overflowingControllers = Mapping.empty\<rparr>"

text \<open>The cache after eleven calls for \<open>sharingPod\<close>: ten infos, and the controller marked.\<close>

definition sharingCache :: SimilarPodsScheduling where
  "sharingCache =
     \<lparr>items = Mapping.update ''rs-1'' (replicate 10 (infoOf sharingPod)) Mapping.empty,
      overflowingControllers = Mapping.update ''rs-1'' True Mapping.empty\<rparr>"

definition node1 :: Node where
  "node1 = \<lparr>Node_Name = ''n1''\<rparr>"

definition node2 :: Node where
  "node2 = \<lparr>Node_Name = ''n2''\<rparr>"

text \<open>
  \<open>runningPod\<close> has both an assignment and a nomination, \<open>nominatedPod\<close> a nomination
  only, \<open>ghostPod\<close> an assignment to a node that is never added; \<open>webPod\<close> has neither.
\<close>

definition runningPod :: Pod where
  "runningPod = webPod\<lparr>Pod_Name := ''run-1'', Spec := webSpec\<lparr>NodeName := ''n2''\<rparr>,
                       NominatedNodeName := ''n1''\<rparr>"

definition nominatedPod :: Pod where
  "nominatedPod = webPod\<lparr>Pod_Name := ''nom-1'', NominatedNodeName := ''n1''\<rparr>"

definition ghostPod :: Pod where
  "ghostPod = webPod\<lparr>Pod_Name := ''ghost-1'', Spec := webSpec\<lparr>NodeName := ''n9''\<rparr>\<rparr>"

section \<open>Sanitization: what it returns and what it writes\<close>

lemma volumesLoop_eq:
  "volumesLoop vs (acc, N) =
     (acc @ filter (\<lambda>v. Projected v = None) vs,
      N \<union> Volume_Name ` set (filter (\<lambda>v. Projected v \<noteq> None) vs))"
  by (induction vs arbitrary: acc N) auto

lemma dropMounts_twice: "dropMounts M (dropMounts N c) = dropMounts (M \<union> N) c"
  by (simp add: dropMounts_def conj_commute)

lemma dropMounts_idem: "dropMounts N (dropMounts N c) = dropMounts N c"
  by (simp add: dropMounts_twice)

lemma dropMounts_commute: "dropMounts M (dropMounts N c) = dropMounts N (dropMounts M c)"
  by (simp add: dropMounts_twice Un_commute)

lemma map_dropMounts_idem:
  "map (dropMounts N) (map (dropMounts N) cs) = map (dropMounts N) cs"
  by (simp add: dropMounts_idem)

lemma map_dropMounts_commute:
  "map (dropMounts M) (map (dropMounts N) cs) = map (dropMounts N) (map (dropMounts M) cs)"
  by (simp add: dropMounts_commute)

lemma dropMountsIn_apply:
  "dropMountsIn N sl st a = (if sl = Some a then map (dropMounts N) (st a) else st a)"
  by (auto simp: dropMountsIn_def split: option.splits)

text \<open>
  The spec returned is the callee's copy without the projected volumes and the hostname;
  the store is rewritten at every array the spec refers to.
\<close>

lemma sanitizePodSpec_eq:
  "sanitizePodSpec s st =
     (s\<lparr>Volumes := filter (\<lambda>v. Projected v = None) (Volumes s), Hostname := ''''\<rparr>,
      (\<lambda>a. if a \<in> addrsOf s then map (dropMounts (projectedNames s)) (st a) else st a))"
  by (auto simp: sanitizePodSpec_def dropProjectedVolumesAndMounts_def volumesLoop_eq
      dropHostname_def projectedNames_def addrsOf_def dropMountsIn_apply fun_eq_iff
      dropMounts_idem split: option.splits)

lemma PodSpecSemanticallyEqual_refl: "fst (PodSpecSemanticallyEqual s s st)"
  by (simp add: PodSpecSemanticallyEqual_def sanitizePodSpec_eq SemanticDeepEqual_def)

text \<open>
  Two arrays that agree once each is stripped by its own spec's names still agree
  however the two strippings have been applied to them.
\<close>

lemma stripped_agree:
  assumes "map (dropMounts N1) x = map (dropMounts N2) y"
  shows "map (dropMounts N2) (map (dropMounts N1) x) = map (dropMounts N1) x"
    and "map (dropMounts N2) y = map (dropMounts N1) x"
    and "map (dropMounts N2) (map (dropMounts N1) y) = map (dropMounts N1) x"
proof -
  show "map (dropMounts N2) (map (dropMounts N1) x) = map (dropMounts N1) x"
    by (simp only: assms map_dropMounts_idem)
  show "map (dropMounts N2) y = map (dropMounts N1) x"
    by (simp only: assms)
  have "map (dropMounts N2) (map (dropMounts N1) y) = map (dropMounts N1) (map (dropMounts N2) y)"
    by (rule map_dropMounts_commute)
  also have "\<dots> = map (dropMounts N1) (map (dropMounts N1) x)"
    by (simp only: assms)
  also have "\<dots> = map (dropMounts N1) x"
    by (rule map_dropMounts_idem)
  finally show "map (dropMounts N2) (map (dropMounts N1) y) = map (dropMounts N1) x" .
qed

lemma slot_final:
  assumes eq: "map (dropMounts N1) (elems st sl1) = map (dropMounts N2) (elems st sl2)"
    and a1: "set_option sl1 \<subseteq> A1" and a2: "set_option sl2 \<subseteq> A2"
  shows "elems (\<lambda>a. if a \<in> A2
                   then map (dropMounts N2) (if a \<in> A1 then map (dropMounts N1) (st a) else st a)
                   else (if a \<in> A1 then map (dropMounts N1) (st a) else st a)) sl1
       = elems (\<lambda>a. if a \<in> A2
                   then map (dropMounts N2) (if a \<in> A1 then map (dropMounts N1) (st a) else st a)
                   else (if a \<in> A1 then map (dropMounts N1) (st a) else st a)) sl2"
proof (cases sl1)
  case None
  with eq have "elems st sl2 = []" by (simp add: elems_def)
  with None show ?thesis by (cases sl2) (simp_all add: elems_def)
next
  case (Some x)
  note x = this
  show ?thesis
  proof (cases sl2)
    case None
    with eq x have "st x = []" by (simp add: elems_def)
    with None x show ?thesis by (simp add: elems_def)
  next
    case (Some y)
    from eq x Some have e: "map (dropMounts N1) (st x) = map (dropMounts N2) (st y)"
      by (simp add: elems_def)
    from a1 x have x1: "x \<in> A1" by simp
    from a2 Some have y2: "y \<in> A2" by simp
    show ?thesis
      using x Some x1 y2 stripped_agree[OF e] by (simp add: elems_def)
  qed
qed

text \<open>
  The sanitized value, stated apart from the code, is what the code's \<open>dropMounts\<close>
  computes element by element.
\<close>

lemma dropMounts_eq: "dropMounts N c = withoutMountsOf N c"
  by (cases c) (simp add: dropMounts_def withoutMountsOf_def)

lemma sanitizedValue_code:
  "sanitizedValue st s =
     (filter (\<lambda>v. Projected v = None) (Volumes s),
      map (dropMounts (projectedNames s)) (elems st (InitContainers s)),
      map (dropMounts (projectedNames s)) (elems st (Containers s)),
      NodeName s, '''', OtherFields s)"
  by (simp add: sanitizedValue_def dropMounts_eq)

lemma sanitized_equal_imp:
  assumes "sanitizedValue st p1 = sanitizedValue st p2"
  shows "fst (PodSpecSemanticallyEqual p1 p2 st)"
proof -
  from assms have
    v: "filter (\<lambda>v. Projected v = None) (Volumes p1) = filter (\<lambda>v. Projected v = None) (Volumes p2)"
    and i: "map (dropMounts (projectedNames p1)) (elems st (InitContainers p1))
            = map (dropMounts (projectedNames p2)) (elems st (InitContainers p2))"
    and c: "map (dropMounts (projectedNames p1)) (elems st (Containers p1))
            = map (dropMounts (projectedNames p2)) (elems st (Containers p2))"
    and r: "NodeName p1 = NodeName p2" "OtherFields p1 = OtherFields p2"
    by (simp_all add: sanitizedValue_code)
  have si: "set_option (InitContainers p1) \<subseteq> addrsOf p1"
    "set_option (InitContainers p2) \<subseteq> addrsOf p2"
    and sc: "set_option (Containers p1) \<subseteq> addrsOf p1"
    "set_option (Containers p2) \<subseteq> addrsOf p2"
    by (simp_all add: addrsOf_def)
  show ?thesis
    using v r slot_final[OF i si] slot_final[OF c sc]
    by (simp add: PodSpecSemanticallyEqual_def sanitizePodSpec_eq SemanticDeepEqual_def
        deepValue_def)
qed

lemma separate_equal_imp:
  assumes "separate p1 p2" and "fst (PodSpecSemanticallyEqual p1 p2 st)"
  shows "sanitizedValue st p1 = sanitizedValue st p2"
  using assms
  by (auto simp: PodSpecSemanticallyEqual_def sanitizePodSpec_eq SemanticDeepEqual_def
      deepValue_def sanitizedValue_code separate_def addrsOf_def elems_def split: option.splits)

lemma snd_PodSpecSemanticallyEqual:
  "snd (PodSpecSemanticallyEqual p1 p2 st) = snd (sanitizePodSpec p2 (snd (sanitizePodSpec p1 st)))"
  by (simp add: PodSpecSemanticallyEqual_def split: prod.splits)

text \<open>
  Sanitizing a spec leaves the sanitized value of the same spec, and of every spec that
  shares no array with it, as it was.
\<close>

lemma sanitizePodSpec_keeps_value:
  assumes "s = p \<or> separate s p"
  shows "sanitizedValue (snd (sanitizePodSpec p st)) s = sanitizedValue st s"
  using assms
  by (auto simp: sanitizePodSpec_eq sanitizedValue_code separate_def addrsOf_def elems_def
      dropMounts_idem split: option.splits)

lemma Match_infoOf_self: "fst (Match (infoOf pod) pod st)"
  by (simp add: Match_def infoOf_def PodSpecSemanticallyEqual_refl)

text \<open>
  What holds of \<^verbatim>\<open>Match\<close> for every pod, info and store: a pod that has the signature of
  the info matches it. For a pod whose spec shares no array with the spec of the info,
  a match also means that the signatures are the same.
\<close>

lemma Match_if_sameSignature:
  "sameSignature st pod psi \<Longrightarrow> fst (Match psi pod st)"
  by (simp add: sameSignature_def Match_def sanitized_equal_imp)

lemma Match_iff_sameSignature:
  assumes "separate (Spec pod) (spec psi)"
  shows "fst (Match psi pod st) \<longleftrightarrow> sameSignature st pod psi"
proof
  assume m: "fst (Match psi pod st)"
  then have l: "Labels pod = labels psi"
    by (auto simp: Match_def split: if_splits)
  with m have "fst (PodSpecSemanticallyEqual (Spec pod) (spec psi) st)"
    by (simp add: Match_def)
  with assms l show "sameSignature st pod psi"
    by (simp add: sameSignature_def separate_equal_imp)
next
  assume "sameSignature st pod psi"
  then show "fst (Match psi pod st)"
    by (rule Match_if_sameSignature)
qed

lemmas sample_defs =
  webStore_def webSpec_def bareSpec_def sharingSpec_def sidecarSpec_def webPod_def barePod_def
  annotatedPod_def sharingPod_def sidecarPod_def appContainer_def sidecarContainer_def
  tokenVolume_def dataVolume_def tokenMount_def dataMount_def replicaSetRef_def

text \<open>
  The pod \<open>webPod\<close> has a projected volume, a mount of it and the hostname \<open>web-1\<close>;
  \<open>barePod\<close> has neither and the hostname \<open>web-2\<close>, in an array of its own. They have the
  same signature and match.
\<close>

lemma projected_volume_and_hostname_ignored:
  "Hostname (Spec webPod) \<noteq> Hostname (Spec barePod)
   \<and> Volumes (Spec webPod) \<noteq> Volumes (Spec barePod)
   \<and> elems webStore (Containers (Spec webPod)) \<noteq> elems webStore (Containers (Spec barePod))
   \<and> sameSignature webStore webPod (infoOf barePod)
   \<and> fst (Match (infoOf barePod) webPod webStore)"
proof -
  have s: "sameSignature webStore webPod (infoOf barePod)"
    by (simp add: sameSignature_def sanitizedValue_def withoutMountsOf_def projectedNames_def
        elems_def infoOf_def sample_defs)
  have "Hostname (Spec webPod) \<noteq> Hostname (Spec barePod)"
    "Volumes (Spec webPod) \<noteq> Volumes (Spec barePod)"
    "elems webStore (Containers (Spec webPod)) \<noteq> elems webStore (Containers (Spec barePod))"
    by (simp_all add: elems_def sample_defs)
  with s Match_if_sameSignature[OF s] show ?thesis by blast
qed

text \<open>
  \<open>sharingPod\<close> has the labels of \<open>webPod\<close>, no projected volume, and the array of
  containers of \<open>webPod\<close>. Its sanitized spec keeps the mount \<open>token\<close>, which the
  sanitized spec of \<open>webPod\<close> has lost: the two signatures differ. \<^verbatim>\<open>Match\<close> sanitizes
  the spec of \<open>webPod\<close> first, which takes the mount out of the array the two specs
  share, and then finds the two specs equal.
\<close>

lemma sharingPod_signature: "\<not> sameSignature webStore webPod (infoOf sharingPod)"
  by (simp add: sameSignature_def sanitizedValue_def withoutMountsOf_def projectedNames_def
      elems_def infoOf_def sample_defs)

lemma sharingPod_matches: "fst (Match (infoOf sharingPod) webPod webStore)"
  by (simp add: Match_def PodSpecSemanticallyEqual_def sanitizePodSpec_eq SemanticDeepEqual_def
      deepValue_def addrsOf_def projectedNames_def dropMounts_def elems_def infoOf_def
      sample_defs)

text \<open>
  C2. \<^verbatim>\<open>Match\<close> is to return true if and only if the labels are exactly equal and the
  sanitized specs are semantically deep-equal. At \<open>webPod\<close> and the info of \<open>sharingPod\<close>
  the labels are equal, the sanitized specs differ in the mounts of the container, and
  \<^verbatim>\<open>Match\<close> returns true: the sanitizer writes through the array the two specs share.
\<close>

theorem Match_true_for_unequal_sanitized_specs:
  "Labels webPod = labels (infoOf sharingPod)
   \<and> sanitizedValue webStore (Spec webPod) \<noteq> sanitizedValue webStore (spec (infoOf sharingPod))
   \<and> fst (Match (infoOf sharingPod) webPod webStore)"
  using sharingPod_signature sharingPod_matches
  by (simp add: sameSignature_def) (simp add: infoOf_def sharingPod_def)

text \<open>
  C8. Sanitization does not operate on copies only. The spec is passed by value, but
  the copy shares the backing arrays of \<^verbatim>\<open>Containers\<close> and \<^verbatim>\<open>InitContainers\<close> with the
  original, and \<^verbatim>\<open>dropProjectedVolumesAndMounts\<close> assigns to their elements. Here the
  container of the original pod has the mounts \<open>data\<close> and \<open>token\<close> before the call and
  only \<open>data\<close> after it; the same holds after \<^verbatim>\<open>PodSpecSemanticallyEqual\<close> and \<^verbatim>\<open>Match\<close>.
\<close>

theorem sanitizePodSpec_writes_original:
  "elems webStore (Containers (Spec webPod)) = [appContainer [dataMount, tokenMount]]
   \<and> elems (snd (sanitizePodSpec (Spec webPod) webStore)) (Containers (Spec webPod))
       = [appContainer [dataMount]]
   \<and> elems (snd (PodSpecSemanticallyEqual (Spec webPod) (Spec barePod) webStore))
         (Containers (Spec webPod)) = [appContainer [dataMount]]
   \<and> elems (snd (Match (infoOf barePod) webPod webStore)) (Containers (Spec webPod))
       = [appContainer [dataMount]]"
  by (simp add: Match_def PodSpecSemanticallyEqual_def sanitizePodSpec_eq addrsOf_def
      projectedNames_def dropMounts_def elems_def infoOf_def sample_defs)

section \<open>The cache\<close>

lemma matchLoop_last:
  "(\<And>st. fst (Match info pod st)) \<Longrightarrow> fst (matchLoop (infos @ [info]) pod st)"
proof (induction infos arbitrary: st)
  case Nil
  from Nil[of st] show ?case by (cases "Match info pod st") auto
next
  case (Cons a infos)
  show ?case
  proof (cases "Match a pod st")
    case (Pair b st')
    with Cons.IH[OF Cons.prems, of st'] show ?thesis by (cases b) simp_all
  qed
qed

lemma matchLoop_single: "fst (matchLoop [info] pod st) = fst (Match info pod st)"
proof (cases "Match info pod st")
  case (Pair b st')
  then show ?thesis by (cases b) simp_all
qed

lemma matchLoop_hit:
  "fst (matchLoop infos pod st) \<Longrightarrow> \<exists>info \<in> set infos. \<exists>st'. fst (Match info pod st')"
proof (induction infos arbitrary: st)
  case Nil
  then show ?case by simp
next
  case (Cons a infos)
  show ?case
  proof (cases "Match a pod st")
    case (Pair b st')
    show ?thesis
    proof (cases b)
      case True
      with Pair have "fst (Match a pod st)" by simp
      then show ?thesis by auto
    next
      case False
      with Pair Cons.prems have "fst (matchLoop infos pod st')" by simp
      from Cons.IH[OF this] show ?thesis by auto
    qed
  qed
qed

lemma lookup_hit_stored:
  assumes "fst (IsSimilarUnschedulable ControllerRef p pod st)"
  shows "\<exists>uid. uidOf ControllerRef pod = Some uid \<and>
           (\<exists>info \<in> set (stored p uid). \<exists>st'. fst (Match info pod st'))"
proof (cases "ControllerRef pod")
  case None
  with assms show ?thesis by (simp add: IsSimilarUnschedulable_def)
next
  case (Some ref)
  note ref = this
  show ?thesis
  proof (cases "Mapping.lookup (items p) (UID ref)")
    case None
    with ref assms show ?thesis by (simp add: IsSimilarUnschedulable_def)
  next
    case (Some infos)
    with ref assms have "fst (matchLoop infos pod st)"
      by (simp add: IsSimilarUnschedulable_def)
    from matchLoop_hit[OF this] ref Some show ?thesis
      by (auto simp: uidOf_def stored_def Mapping.lookup_default_def)
  qed
qed

lemma matchLoop_first:
  "fst (Match info pod st) \<Longrightarrow> fst (matchLoop (info # infos) pod st)"
proof (cases "Match info pod st")
  case (Pair b st')
  assume "fst (Match info pod st)"
  with Pair show ?thesis by simp
qed

text \<open>
  No hit without a stored signature, as long as no two different specs share an array:
  a comparison that fails leaves the sanitized value of every spec involved as it was,
  so the next comparison fails as well.
\<close>

lemma matchLoop_no_hit:
  assumes "unshared (Spec pod # map spec infos)"
    and "\<forall>info \<in> set infos. \<not> sameSignature st pod info"
  shows "\<not> fst (matchLoop infos pod st)"
  using assms
proof (induction infos arbitrary: st)
  case Nil
  show ?case by simp
next
  case (Cons a infos)
  have u: "unshared (Spec pod # map spec infos)"
    using Cons.prems(1) by (auto simp: unshared_def)
  show ?case
  proof (cases "Labels pod = labels a")
    case False
    then have "Match a pod st = (False, st)"
      by (simp add: Match_def)
    moreover have "\<not> fst (matchLoop infos pod st)"
      using Cons.prems(2) by (intro Cons.IH[OF u]) simp
    ultimately show ?thesis by simp
  next
    case True
    with Cons.prems(2) have ne: "sanitizedValue st (Spec pod) \<noteq> sanitizedValue st (spec a)"
      by (simp add: sameSignature_def)
    then have "Spec pod \<noteq> spec a" by auto
    with Cons.prems(1) have sep: "separate (Spec pod) (spec a)"
      by (auto simp: unshared_def)
    from separate_equal_imp[OF sep] ne
    have f: "\<not> fst (PodSpecSemanticallyEqual (Spec pod) (spec a) st)"
      by blast
    define st' where "st' = snd (PodSpecSemanticallyEqual (Spec pod) (spec a) st)"
    have m: "Match a pod st = (False, st')"
      using True f by (simp add: Match_def st'_def prod_eq_iff)
    have keep: "sanitizedValue st' s = sanitizedValue st s"
      if "s \<in> set (Spec pod # map spec (a # infos))" for s
    proof -
      from that Cons.prems(1) have 1: "s = Spec pod \<or> separate s (Spec pod)"
        and 2: "s = spec a \<or> separate s (spec a)"
        by (auto simp: unshared_def)
      have "sanitizedValue st' s = sanitizedValue (snd (sanitizePodSpec (Spec pod) st)) s"
        unfolding st'_def snd_PodSpecSemanticallyEqual
        by (rule sanitizePodSpec_keeps_value[OF 2])
      also have "\<dots> = sanitizedValue st s"
        by (rule sanitizePodSpec_keeps_value[OF 1])
      finally show ?thesis .
    qed
    have "\<forall>info \<in> set infos. \<not> sameSignature st' pod info"
      using Cons.prems(2) by (simp add: sameSignature_def keep)
    from Cons.IH[OF u this] m show ?thesis by simp
  qed
qed

lemma lookup_no_hit:
  assumes "uidOf ControllerRef pod = Some uid"
    and "unshared (Spec pod # map spec (stored p uid))"
    and "\<forall>info \<in> set (stored p uid). \<not> sameSignature st pod info"
  shows "\<not> fst (IsSimilarUnschedulable ControllerRef p pod st)"
proof (cases "ControllerRef pod")
  case None
  then show ?thesis by (simp add: IsSimilarUnschedulable_def)
next
  case (Some ref)
  with assms(1) have uid: "UID ref = uid" by (simp add: uidOf_def)
  show ?thesis
  proof (cases "Mapping.lookup (items p) uid")
    case None
    with Some uid show ?thesis by (simp add: IsSimilarUnschedulable_def)
  next
    case (Some infos)
    then have "stored p uid = infos"
      by (simp add: stored_def Mapping.lookup_default_def)
    with assms(2,3) have "\<not> fst (matchLoop infos pod st)"
      by (intro matchLoop_no_hit) simp_all
    with \<open>ControllerRef pod = Some ref\<close> uid Some show ?thesis
      by (simp add: IsSimilarUnschedulable_def)
  qed
qed

lemma SetUnschedulable_noop:
  "IsDaemonSetPod pod \<or> ControllerRef pod = None \<Longrightarrow>
   SetUnschedulable ControllerRef IsDaemonSetPod p pod = p"
  by (auto simp: SetUnschedulable_def split: option.splits)

lemma lookup_no_ref:
  "ControllerRef pod = None \<Longrightarrow> IsSimilarUnschedulable ControllerRef p pod st = (False, st)"
  by (simp add: IsSimilarUnschedulable_def)

lemma SetUnschedulable_at_cap:
  assumes "ControllerRef pod = Some ref" and "\<not> IsDaemonSetPod pod"
    and "length (stored p (UID ref)) \<ge> maxPodsPerOwnerRef"
  shows "SetUnschedulable ControllerRef IsDaemonSetPod p pod =
           p\<lparr>overflowingControllers := Mapping.update (UID ref) True (overflowingControllers p)\<rparr>"
  using assms by (simp add: SetUnschedulable_def stored_def Let_def)

lemma stored_SetUnschedulable:
  "stored (SetUnschedulable ControllerRef IsDaemonSetPod p pod) uid =
     (if uidOf ControllerRef pod = Some uid \<and> \<not> IsDaemonSetPod pod
         \<and> length (stored p uid) < maxPodsPerOwnerRef
      then stored p uid @ [infoOf pod] else stored p uid)"
  by (auto simp: SetUnschedulable_def stored_def uidOf_def infoOf_def Let_def
      Mapping.lookup_default_update' split: option.splits)

lemma stored_New: "stored NewSimilarPodsScheduling uid = []"
  by (simp add: stored_def NewSimilarPodsScheduling_def lookup_default_empty)

lemma stored_foldl_le:
  "length (stored p uid) \<le> maxPodsPerOwnerRef \<Longrightarrow>
   length (stored (foldl (SetUnschedulable ControllerRef IsDaemonSetPod) p pods) uid)
     \<le> maxPodsPerOwnerRef"
  by (induction pods arbitrary: p) (simp_all add: stored_SetUnschedulable)

lemma stored_foldl_origin:
  "info \<in> set (stored (foldl (SetUnschedulable ControllerRef IsDaemonSetPod) p pods) uid) \<Longrightarrow>
   info \<in> set (stored p uid) \<or>
   (\<exists>q \<in> set pods. uidOf ControllerRef q = Some uid \<and> \<not> IsDaemonSetPod q \<and> info = infoOf q)"
proof (induction pods arbitrary: p)
  case Nil
  then show ?case by simp
next
  case (Cons a pods)
  from Cons.IH[of "SetUnschedulable ControllerRef IsDaemonSetPod p a"] Cons.prems
  show ?case by (auto simp: stored_SetUnschedulable split: if_splits)
qed

lemma hit_has_origin:
  assumes "fst (IsSimilarUnschedulable ControllerRef
             (foldl (SetUnschedulable ControllerRef IsDaemonSetPod) NewSimilarPodsScheduling pods)
             pod st)"
  shows "\<exists>q \<in> set pods. uidOf ControllerRef q = uidOf ControllerRef pod \<and> \<not> IsDaemonSetPod q"
proof -
  from lookup_hit_stored[OF assms] obtain uid info where
    u: "uidOf ControllerRef pod = Some uid" and
    i: "info \<in> set (stored (foldl (SetUnschedulable ControllerRef IsDaemonSetPod)
                              NewSimilarPodsScheduling pods) uid)"
    by blast
  from stored_foldl_origin[OF i] u show ?thesis by (auto simp: stored_New)
qed

lemma keys_overflowing_SetUnschedulable:
  "Mapping.keys (overflowingControllers (SetUnschedulable ControllerRef IsDaemonSetPod p pod)) =
     Mapping.keys (overflowingControllers p) \<union> set (overflowMark ControllerRef IsDaemonSetPod p pod)"
  by (auto simp: SetUnschedulable_def overflowMark_def stored_def Let_def split: option.splits)

lemma keys_overflowing_foldl:
  "Mapping.keys (overflowingControllers (foldl (SetUnschedulable ControllerRef IsDaemonSetPod) p pods)) =
     Mapping.keys (overflowingControllers p) \<union> set (overflowMarks ControllerRef IsDaemonSetPod p pods)"
  by (induction pods arbitrary: p) (auto simp: keys_overflowing_SetUnschedulable)

lemma count_marked_again:
  assumes "uidOf ControllerRef pod = Some uid"
    and "uid \<in> Mapping.keys (overflowingControllers p)"
  shows "OverflowingControllerCount (SetUnschedulable ControllerRef IsDaemonSetPod p pod) =
         OverflowingControllerCount p"
proof -
  have "set (overflowMark ControllerRef IsDaemonSetPod p pod) \<subseteq> {uid}"
    using assms(1) by (auto simp: overflowMark_def uidOf_def split: option.splits if_splits)
  with assms(2) have
    "Mapping.keys (overflowingControllers (SetUnschedulable ControllerRef IsDaemonSetPod p pod))
       = Mapping.keys (overflowingControllers p)"
    by (auto simp: keys_overflowing_SetUnschedulable)
  then show ?thesis by (simp add: OverflowingControllerCount_def Mapping.size_def)
qed

subsection \<open>The pods written out\<close>

lemma ref_webPod: "ownerControllerRef webPod = Some replicaSetRef"
  by (simp add: ownerControllerRef_def webPod_def replicaSetRef_def)

lemma uid_replicaSetRef: "UID replicaSetRef = ''rs-1''"
  by (simp add: replicaSetRef_def)

lemma uidOf_webPod: "uidOf ownerControllerRef webPod = Some ''rs-1''"
  by (simp add: uidOf_def ref_webPod uid_replicaSetRef)

lemma not_ds_webPod: "\<not> daemonSetByKindOrAnnotation webPod"
  by (simp add: daemonSetByKindOrAnnotation_def ref_webPod) (simp add: webPod_def replicaSetRef_def)

lemma ref_annotatedPod: "ownerControllerRef annotatedPod = Some replicaSetRef"
  by (simp add: ownerControllerRef_def annotatedPod_def webPod_def replicaSetRef_def)

lemma ds_annotatedPod: "daemonSetByKindOrAnnotation annotatedPod"
  by (simp add: daemonSetByKindOrAnnotation_def annotatedPod_def)

lemma ref_sidecarPod: "ownerControllerRef sidecarPod = Some replicaSetRef"
  by (simp add: ownerControllerRef_def sidecarPod_def webPod_def replicaSetRef_def)

lemma ref_sharingPod: "ownerControllerRef sharingPod = Some replicaSetRef"
  by (simp add: ownerControllerRef_def sharingPod_def webPod_def replicaSetRef_def)

lemma not_ds_sharingPod: "\<not> daemonSetByKindOrAnnotation sharingPod"
  by (simp add: daemonSetByKindOrAnnotation_def ref_sharingPod)
     (simp add: sharingPod_def webPod_def replicaSetRef_def)

lemma stored_fullCache: "stored fullCache ''rs-1'' = replicate 10 (infoOf webPod)"
  by (simp add: stored_def fullCache_def Mapping.lookup_default_update)

text \<open>Ten calls for \<open>webPod\<close> on a new cache give \<open>fullCache\<close>.\<close>

lemma fullCache_reached:
  "foldl (SetUnschedulable ownerControllerRef daemonSetByKindOrAnnotation)
      NewSimilarPodsScheduling (replicate 10 webPod) = fullCache"
  by (simp add: eval_nat_numeral SetUnschedulable_def ref_webPod not_ds_webPod uid_replicaSetRef
      NewSimilarPodsScheduling_def fullCache_def maxPodsPerOwnerRef_def Let_def
      Mapping.lookup_default_update Mapping.lookup_default_empty Mapping.update_update infoOf_def)

text \<open>Eleven calls for \<open>sharingPod\<close> on a new cache give \<open>sharingCache\<close>.\<close>

lemma sharingCache_reached:
  "foldl (SetUnschedulable ownerControllerRef daemonSetByKindOrAnnotation)
      NewSimilarPodsScheduling (replicate 11 sharingPod) = sharingCache"
  by (simp add: eval_nat_numeral SetUnschedulable_def ref_sharingPod not_ds_sharingPod
      uid_replicaSetRef NewSimilarPodsScheduling_def sharingCache_def maxPodsPerOwnerRef_def
      Let_def Mapping.lookup_default_update Mapping.lookup_default_empty Mapping.update_update
      infoOf_def)

subsection \<open>Storing and looking up\<close>

text \<open>
  C9. Store then look up: for a pod with a controller reference that is not a daemon-set
  pod and whose controller has fewer than 10 stored infos, \<^verbatim>\<open>IsSimilarUnschedulable\<close>
  called after \<^verbatim>\<open>SetUnschedulable\<close> returns true, in every store and whatever the two
  helpers are.
\<close>

theorem store_then_lookup:
  assumes "ControllerRef pod = Some ref" and "\<not> IsDaemonSetPod pod"
    and "length (stored p (UID ref)) < maxPodsPerOwnerRef"
  shows "fst (IsSimilarUnschedulable ControllerRef
                (SetUnschedulable ControllerRef IsDaemonSetPod p pod) pod st)"
  using assms matchLoop_last[of "infoOf pod" pod "stored p (UID ref)" st, OF Match_infoOf_self]
  by (simp add: IsSimilarUnschedulable_def SetUnschedulable_def stored_def infoOf_def Let_def)

theorem store_then_lookup_witness:
  "ownerControllerRef webPod = Some replicaSetRef
   \<and> \<not> daemonSetByKindOrAnnotation webPod
   \<and> length (stored NewSimilarPodsScheduling (UID replicaSetRef)) < maxPodsPerOwnerRef
   \<and> fst (IsSimilarUnschedulable ownerControllerRef
            (SetUnschedulable ownerControllerRef daemonSetByKindOrAnnotation
               NewSimilarPodsScheduling webPod) webPod webStore)"
proof -
  have c: "length (stored NewSimilarPodsScheduling (UID replicaSetRef)) < maxPodsPerOwnerRef"
    by (simp add: stored_New maxPodsPerOwnerRef_def)
  from store_then_lookup[of ownerControllerRef webPod replicaSetRef daemonSetByKindOrAnnotation
      NewSimilarPodsScheduling webStore, OF ref_webPod not_ds_webPod c]
  show ?thesis using ref_webPod not_ds_webPod c by simp
qed

text \<open>
  C3, as amended. For every pod with a controller reference that is not a daemon-set pod
  and whose controller already has 10 stored infos, \<^verbatim>\<open>SetUnschedulable\<close> marks the
  controller as overflowing and leaves the stored infos as they are; and afterwards
  \<^verbatim>\<open>IsSimilarUnschedulable\<close> returns false for every pod of that controller whose
  signature (its labels and its sanitized spec) is the signature of none of the stored
  infos, when no two different specs among the pod's and the stored ones share an array
  of containers.
\<close>

theorem overflow_at_cap:
  assumes "ControllerRef pod = Some ref" and "\<not> IsDaemonSetPod pod"
    and "length (stored p (UID ref)) \<ge> maxPodsPerOwnerRef"
  shows "Mapping.lookup (overflowingControllers (SetUnschedulable ControllerRef IsDaemonSetPod p pod))
            (UID ref) = Some True
       \<and> items (SetUnschedulable ControllerRef IsDaemonSetPod p pod) = items p
       \<and> (\<forall>q st. uidOf ControllerRef q = Some (UID ref) \<and>
                  unshared (Spec q # map spec (stored p (UID ref))) \<and>
                  (\<forall>info \<in> set (stored p (UID ref)). \<not> sameSignature st q info) \<longrightarrow>
                  \<not> fst (IsSimilarUnschedulable ControllerRef
                           (SetUnschedulable ControllerRef IsDaemonSetPod p pod) q st))"
proof -
  let ?p' = "SetUnschedulable ControllerRef IsDaemonSetPod p pod"
  have p': "?p' = p\<lparr>overflowingControllers :=
                      Mapping.update (UID ref) True (overflowingControllers p)\<rparr>"
    using assms by (rule SetUnschedulable_at_cap)
  have st: "stored ?p' uid = stored p uid" for uid
    by (simp add: p' stored_def)
  have "\<not> fst (IsSimilarUnschedulable ControllerRef ?p' q st)"
    if q: "uidOf ControllerRef q = Some (UID ref)"
      and un: "unshared (Spec q # map spec (stored p (UID ref)))"
      and no: "\<forall>info \<in> set (stored p (UID ref)). \<not> sameSignature st q info"
    for q st
    using q un no by (intro lookup_no_hit[where uid = "UID ref"]) (simp_all add: st)
  then show ?thesis by (simp add: p')
qed

text \<open>
  The cache holds ten infos of \<open>webPod\<close> for the controller \<open>rs-1\<close>. \<open>sidecarPod\<close> is a
  pod of the same controller with the same labels and volumes and another container, in
  an array of its own: its signature is not stored, and its lookup returns false.
\<close>

theorem overflow_at_cap_witness:
  "ownerControllerRef webPod = Some replicaSetRef
   \<and> \<not> daemonSetByKindOrAnnotation webPod
   \<and> length (stored fullCache (UID replicaSetRef)) \<ge> maxPodsPerOwnerRef
   \<and> uidOf ownerControllerRef sidecarPod = Some (UID replicaSetRef)
   \<and> unshared (Spec sidecarPod # map spec (stored fullCache (UID replicaSetRef)))
   \<and> Labels sidecarPod = labels (infoOf webPod)
   \<and> \<not> sameSignature webStore sidecarPod (infoOf webPod)
   \<and> Mapping.lookup (overflowingControllers
        (SetUnschedulable ownerControllerRef daemonSetByKindOrAnnotation fullCache webPod))
        (UID replicaSetRef) = Some True
   \<and> items (SetUnschedulable ownerControllerRef daemonSetByKindOrAnnotation fullCache webPod)
       = items fullCache
   \<and> \<not> fst (IsSimilarUnschedulable ownerControllerRef
        (SetUnschedulable ownerControllerRef daemonSetByKindOrAnnotation fullCache webPod)
        sidecarPod webStore)"
proof -
  have c: "length (stored fullCache (UID replicaSetRef)) \<ge> maxPodsPerOwnerRef"
    by (simp add: uid_replicaSetRef stored_fullCache maxPodsPerOwnerRef_def)
  note t = overflow_at_cap[of ownerControllerRef webPod replicaSetRef daemonSetByKindOrAnnotation
      fullCache, OF ref_webPod not_ds_webPod c]
  have u: "uidOf ownerControllerRef sidecarPod = Some (UID replicaSetRef)"
    by (simp add: uidOf_def ref_sidecarPod)
  have s: "unshared (Spec sidecarPod # map spec (stored fullCache (UID replicaSetRef)))"
    by (simp add: uid_replicaSetRef stored_fullCache unshared_def separate_def addrsOf_def
        infoOf_def sample_defs)
  have l: "Labels sidecarPod = labels (infoOf webPod)"
    by (simp add: infoOf_def sidecarPod_def)
  have d: "\<not> sameSignature webStore sidecarPod (infoOf webPod)"
    by (simp add: sameSignature_def sanitizedValue_def withoutMountsOf_def projectedNames_def
        elems_def infoOf_def sample_defs)
  then have n: "\<forall>info \<in> set (stored fullCache (UID replicaSetRef)).
                  \<not> sameSignature webStore sidecarPod info"
    by (simp add: uid_replicaSetRef stored_fullCache)
  from t u s n have "\<not> fst (IsSimilarUnschedulable ownerControllerRef
        (SetUnschedulable ownerControllerRef daemonSetByKindOrAnnotation fullCache webPod)
        sidecarPod webStore)"
    by blast
  with t c u s l d ref_webPod not_ds_webPod show ?thesis by blast
qed

text \<open>
  The claim as stated fails in both halves. The first half, for every pod with a
  controller reference, fails at a daemon-set pod: \<open>annotatedPod\<close> has the controller
  \<open>rs-1\<close>, which has ten stored infos in \<open>fullCache\<close> (the cache after ten calls for
  \<open>webPod\<close>), and \<^verbatim>\<open>SetUnschedulable\<close> returns before it reaches the cap, so the controller
  is not marked. The second half fails where specs share an array: in \<open>sharingCache\<close>
  (the cache after eleven calls for \<open>sharingPod\<close>) the controller is marked and the
  signature of \<open>webPod\<close> is not stored, yet its lookup returns true, since sanitizing
  its spec writes into the array it shares with the stored spec.
\<close>

theorem overflow_at_cap_counterexample:
  "ownerControllerRef annotatedPod = Some replicaSetRef
   \<and> length (stored fullCache (UID replicaSetRef)) = 10
   \<and> Mapping.lookup (overflowingControllers
        (SetUnschedulable ownerControllerRef daemonSetByKindOrAnnotation fullCache annotatedPod))
        (UID replicaSetRef) = None
   \<and> Mapping.lookup (overflowingControllers sharingCache) ''rs-1'' = Some True
   \<and> stored sharingCache ''rs-1'' = replicate 10 (infoOf sharingPod)
   \<and> \<not> sameSignature webStore webPod (infoOf sharingPod)
   \<and> fst (IsSimilarUnschedulable ownerControllerRef sharingCache webPod webStore)"
proof -
  have a: "ownerControllerRef annotatedPod = Some replicaSetRef
     \<and> length (stored fullCache (UID replicaSetRef)) = 10
     \<and> Mapping.lookup (overflowingControllers
        (SetUnschedulable ownerControllerRef daemonSetByKindOrAnnotation fullCache annotatedPod))
        (UID replicaSetRef) = None"
    by (simp add: ref_annotatedPod uid_replicaSetRef stored_fullCache
        SetUnschedulable_noop[of daemonSetByKindOrAnnotation annotatedPod, OF disjI1,
          OF ds_annotatedPod])
       (simp add: fullCache_def)
  have b: "Mapping.lookup (overflowingControllers sharingCache) ''rs-1'' = Some True"
    "stored sharingCache ''rs-1'' = replicate 10 (infoOf sharingPod)"
    by (simp_all add: sharingCache_def stored_def Mapping.lookup_default_update)
  have r: "replicate 10 (infoOf sharingPod) = infoOf sharingPod # replicate 9 (infoOf sharingPod)"
    by (simp add: eval_nat_numeral)
  have "Mapping.lookup (items sharingCache) ''rs-1'' = Some (replicate 10 (infoOf sharingPod))"
    by (simp add: sharingCache_def)
  then have h: "fst (IsSimilarUnschedulable ownerControllerRef sharingCache webPod webStore)"
    using matchLoop_first[OF sharingPod_matches, of "replicate 9 (infoOf sharingPod)"]
    by (simp add: IsSimilarUnschedulable_def ref_webPod uid_replicaSetRef r del: matchLoop.simps)
  from a b sharingPod_signature h show ?thesis by blast
qed

text \<open>
  C4, as amended. For every pod that is a daemon-set pod or has no controller reference,
  \<^verbatim>\<open>SetUnschedulable\<close> leaves the cache as it is. \<^verbatim>\<open>IsSimilarUnschedulable\<close> returns false,
  and leaves the store as it is, for every pod without a controller reference; and in
  the cache reached from a new one by calls of \<^verbatim>\<open>SetUnschedulable\<close> it returns false for
  a pod when every pod of the calls with the same controller UID is a daemon-set pod.
\<close>

theorem daemonset_or_unowned:
  "(IsDaemonSetPod pod \<or> ControllerRef pod = None \<longrightarrow>
      SetUnschedulable ControllerRef IsDaemonSetPod p pod = p)
   \<and> (ControllerRef pod = None \<longrightarrow> IsSimilarUnschedulable ControllerRef p pod st = (False, st))
   \<and> ((\<forall>q \<in> set pods. uidOf ControllerRef q = uidOf ControllerRef pod \<longrightarrow> IsDaemonSetPod q) \<longrightarrow>
        \<not> fst (IsSimilarUnschedulable ControllerRef
                 (foldl (SetUnschedulable ControllerRef IsDaemonSetPod) NewSimilarPodsScheduling pods)
                 pod st))"
  using SetUnschedulable_noop[of IsDaemonSetPod pod ControllerRef p]
    lookup_no_ref[of ControllerRef pod p st]
    hit_has_origin[of ControllerRef IsDaemonSetPod pods pod st]
  by blast

text \<open>
  \<open>annotatedPod\<close> is a daemon-set pod: storing it changes nothing, and after calls for
  daemon-set pods of its controller only, looking it up returns false.
\<close>

theorem daemonset_or_unowned_witness:
  "daemonSetByKindOrAnnotation annotatedPod
   \<and> SetUnschedulable ownerControllerRef daemonSetByKindOrAnnotation fullCache annotatedPod
       = fullCache
   \<and> \<not> fst (IsSimilarUnschedulable ownerControllerRef
        (foldl (SetUnschedulable ownerControllerRef daemonSetByKindOrAnnotation)
           NewSimilarPodsScheduling [annotatedPod, annotatedPod]) annotatedPod webStore)"
proof -
  note t = daemonset_or_unowned[of daemonSetByKindOrAnnotation annotatedPod ownerControllerRef
      fullCache webStore "[annotatedPod, annotatedPod]"]
  have "\<forall>q \<in> set [annotatedPod, annotatedPod].
          uidOf ownerControllerRef q = uidOf ownerControllerRef annotatedPod \<longrightarrow>
          daemonSetByKindOrAnnotation q"
    by (simp add: ds_annotatedPod)
  with t ds_annotatedPod show ?thesis by blast
qed

text \<open>
  The claim as stated fails for a daemon-set pod that has a controller reference: the
  lookup does not ask whether the pod is a daemon-set pod. After \<open>webPod\<close> has been
  stored, the lookup of \<open>annotatedPod\<close>, a daemon-set pod of the same controller with the
  same labels and spec, returns true.
\<close>

theorem daemonset_or_unowned_counterexample:
  "daemonSetByKindOrAnnotation annotatedPod
   \<and> fst (IsSimilarUnschedulable ownerControllerRef
        (foldl (SetUnschedulable ownerControllerRef daemonSetByKindOrAnnotation)
           NewSimilarPodsScheduling [webPod]) annotatedPod webStore)"
proof -
  have "Match (infoOf webPod) annotatedPod webStore = Match (infoOf webPod) webPod webStore"
    by (simp add: Match_def annotatedPod_def)
  then have m: "fst (Match (infoOf webPod) annotatedPod webStore)"
    by (simp add: Match_infoOf_self)
  have l: "Mapping.lookup (items (foldl (SetUnschedulable ownerControllerRef daemonSetByKindOrAnnotation)
           NewSimilarPodsScheduling [webPod])) ''rs-1'' = Some [infoOf webPod]"
    by (simp add: SetUnschedulable_def ref_webPod not_ds_webPod uid_replicaSetRef
        NewSimilarPodsScheduling_def maxPodsPerOwnerRef_def Mapping.lookup_default_empty Let_def
        infoOf_def)
  from m l show ?thesis
    by (simp add: ds_annotatedPod IsSimilarUnschedulable_def ref_annotatedPod uid_replicaSetRef
        matchLoop_single del: foldl.simps matchLoop.simps)
qed

text \<open>
  C7, as amended. In every cache reached from a new one by calls of \<^verbatim>\<open>SetUnschedulable\<close>,
  every controller has at most 10 stored infos.
\<close>

theorem stored_at_most_cap:
  "length (stored (foldl (SetUnschedulable ControllerRef IsDaemonSetPod)
                     NewSimilarPodsScheduling pods) uid) \<le> maxPodsPerOwnerRef"
  by (rule stored_foldl_le) (simp add: stored_New)

theorem stored_at_most_cap_witness:
  "length (stored (foldl (SetUnschedulable ownerControllerRef daemonSetByKindOrAnnotation)
                     NewSimilarPodsScheduling (replicate 12 webPod)) ''rs-1'') \<le> 10"
  using stored_at_most_cap[of ownerControllerRef daemonSetByKindOrAnnotation
      "replicate 12 webPod" "''rs-1''"]
  by (simp add: maxPodsPerOwnerRef_def)

text \<open>
  The stored infos need not be distinct: \<^verbatim>\<open>SetUnschedulable\<close> appends without looking for
  an info that matches. Two calls for \<open>webPod\<close> store its info twice, and both match it.
\<close>

theorem stored_distinct_counterexample:
  "stored (foldl (SetUnschedulable ownerControllerRef daemonSetByKindOrAnnotation)
             NewSimilarPodsScheduling [webPod, webPod]) ''rs-1'' = [infoOf webPod, infoOf webPod]
   \<and> \<not> distinct (stored (foldl (SetUnschedulable ownerControllerRef daemonSetByKindOrAnnotation)
                           NewSimilarPodsScheduling [webPod, webPod]) ''rs-1'')
   \<and> fst (Match (infoOf webPod) webPod webStore)"
  by (simp add: stored_SetUnschedulable stored_New uidOf_webPod not_ds_webPod
      maxPodsPerOwnerRef_def Match_infoOf_self)

text \<open>
  C10. The count is the number of distinct controllers marked as overflowing: after any
  sequence of calls of \<^verbatim>\<open>SetUnschedulable\<close> on a new cache it is the number of distinct
  UIDs among the marks made, and a call for a pod whose controller is already marked
  leaves it as it is.
\<close>

theorem overflow_count:
  "OverflowingControllerCount
     (foldl (SetUnschedulable ControllerRef IsDaemonSetPod) NewSimilarPodsScheduling pods)
     = card (set (overflowMarks ControllerRef IsDaemonSetPod NewSimilarPodsScheduling pods))
   \<and> (uidOf ControllerRef pod = Some uid \<and> uid \<in> Mapping.keys (overflowingControllers p) \<longrightarrow>
        OverflowingControllerCount (SetUnschedulable ControllerRef IsDaemonSetPod p pod)
          = OverflowingControllerCount p)"
  using count_marked_again[of ControllerRef pod uid p IsDaemonSetPod]
  by (simp add: OverflowingControllerCount_def Mapping.size_def keys_overflowing_foldl
      NewSimilarPodsScheduling_def)

text \<open>
  Twelve calls for \<open>webPod\<close>: the last two mark the controller \<open>rs-1\<close>, and the count is 1
  after the twelfth as after the eleventh.
\<close>

theorem overflow_count_witness:
  "overflowMarks ownerControllerRef daemonSetByKindOrAnnotation NewSimilarPodsScheduling
     (replicate 12 webPod) = [''rs-1'', ''rs-1'']
   \<and> OverflowingControllerCount
       (foldl (SetUnschedulable ownerControllerRef daemonSetByKindOrAnnotation)
          NewSimilarPodsScheduling (replicate 12 webPod)) = 1
   \<and> OverflowingControllerCount
       (foldl (SetUnschedulable ownerControllerRef daemonSetByKindOrAnnotation)
          NewSimilarPodsScheduling (replicate 11 webPod)) = 1"
proof -
  have m: "overflowMarks ownerControllerRef daemonSetByKindOrAnnotation fullCache [webPod, webPod]
             = [''rs-1'', ''rs-1'']"
    by (simp add: overflowMark_def ref_webPod not_ds_webPod uid_replicaSetRef
        stored_SetUnschedulable stored_fullCache uidOf_webPod maxPodsPerOwnerRef_def)
  have a: "overflowMarks ownerControllerRef daemonSetByKindOrAnnotation p (replicate n webPod @ pods)
           = overflowMarks ownerControllerRef daemonSetByKindOrAnnotation
               (foldl (SetUnschedulable ownerControllerRef daemonSetByKindOrAnnotation) p
                  (replicate n webPod)) pods"
    if "length (stored p ''rs-1'') + n \<le> 10" for p n pods
    using that
    by (induction n arbitrary: p)
       (simp_all add: overflowMark_def ref_webPod not_ds_webPod uid_replicaSetRef
          stored_SetUnschedulable uidOf_webPod maxPodsPerOwnerRef_def)
  have r12: "replicate 12 webPod = replicate 10 webPod @ [webPod, webPod]"
    and r11: "replicate 11 webPod = replicate 10 webPod @ [webPod]"
    by (simp_all add: eval_nat_numeral)
  have m12: "overflowMarks ownerControllerRef daemonSetByKindOrAnnotation NewSimilarPodsScheduling
     (replicate 12 webPod) = [''rs-1'', ''rs-1'']"
    by (simp only: r12 a[of NewSimilarPodsScheduling 10, simplified stored_New, simplified]
        fullCache_reached m)
  have m11: "overflowMarks ownerControllerRef daemonSetByKindOrAnnotation NewSimilarPodsScheduling
     (replicate 11 webPod) = [''rs-1'']"
    by (simp add: r11 a[of NewSimilarPodsScheduling 10, simplified stored_New, simplified]
        fullCache_reached overflowMark_def ref_webPod not_ds_webPod uid_replicaSetRef
        stored_fullCache maxPodsPerOwnerRef_def)
  from overflow_count[of ownerControllerRef daemonSetByKindOrAnnotation "replicate 12 webPod"]
    overflow_count[of ownerControllerRef daemonSetByKindOrAnnotation "replicate 11 webPod"]
  show ?thesis by (simp only: m12 m11) simp
qed

section \<open>Initialization of the snapshot\<close>

lemma addPodsLoop_panics:
  "pod \<in> set pods \<Longrightarrow> \<not> hasTarget pod \<Longrightarrow>
   \<exists>err s'. addPodsLoop snapshot pods es = Panicked err s'"
proof (induction pods arbitrary: es)
  case Nil
  then show ?case by simp
next
  case (Cons a pods)
  obtain err s where es: "es = (err, s)" by (cases es)
  show ?case
  proof (cases "hasTarget a")
    case True
    with Cons.prems have "pod \<in> set pods" by auto
    from Cons.IH[OF this Cons.prems(2)] True show ?thesis
      by (auto simp: es hasTarget_def)
  next
    case False
    then show ?thesis by (simp add: es hasTarget_def)
  qed
qed

lemma addPodsLoop_returns:
  "\<forall>pod \<in> set pods. hasTarget pod \<Longrightarrow> \<exists>s'. addPodsLoop snapshot pods es = Returned s'"
  by (induction snapshot pods es rule: addPodsLoop.induct) (auto simp: hasTarget_def)

lemma addNodesLoop_fold:
  "snd (addNodesLoop snapshot nodes es) =
     fold (\<lambda>node s. snd (AddNode snapshot node s)) nodes (snd es)"
  by (induction snapshot nodes es rule: addNodesLoop.induct) simp_all

lemma addPodsLoop_fold:
  "snapshotOf (addPodsLoop snapshot pods es) =
     fold (\<lambda>pod s. snd (AddPod snapshot pod (bindTarget pod) s)) (takeWhile hasTarget pods) (snd es)"
  by (induction snapshot pods es rule: addPodsLoop.induct)
     (simp_all add: snapshotOf_def hasTarget_def bindTarget_def)

text \<open>
  Whatever errors \<^verbatim>\<open>AddNode\<close> and \<^verbatim>\<open>AddPod\<close> report, the initialization returns when every
  pod has an assignment or a nomination: \<^verbatim>\<open>err\<close> is assigned and never tested.
\<close>

lemma init_returns_despite_errors:
  "\<forall>pod \<in> set pods. hasTarget pod \<Longrightarrow>
   \<exists>s'. InitializeClusterSnapshotOrDie snapshot nodes pods s = Returned s'"
  unfolding InitializeClusterSnapshotOrDie_def by (rule addPodsLoop_returns)

lemmas snapshot_defs =
  InitializeClusterSnapshotOrDie_def BasicClusterSnapshot_def node1_def node2_def
  runningPod_def nominatedPod_def ghostPod_def webPod_def webSpec_def

text \<open>
  C1. An error of \<^verbatim>\<open>AddNode\<close> or \<^verbatim>\<open>AddPod\<close> does not abort the initialization. The node
  \<open>n1\<close> is given twice and the second \<^verbatim>\<open>AddNode\<close> reports \<open>DuplicateNode\<close>; \<open>ghostPod\<close> is
  assigned to the node \<open>n9\<close>, which is not in the snapshot, and \<^verbatim>\<open>AddPod\<close> reports
  \<open>UnknownNode\<close>. The initialization goes on after both: it adds the node \<open>n2\<close>, binds
  \<open>runningPod\<close> to it, and returns.
\<close>

theorem init_continues_after_errors:
  "fst (AddNode BasicClusterSnapshot node1
          (snd (AddNode BasicClusterSnapshot node1 (Clear BasicClusterSnapshot Mapping.empty))))
     = Some DuplicateNode
   \<and> fst (AddPod BasicClusterSnapshot ghostPod ''n9''
            (Mapping.update ''n2'' (node2, []) (Mapping.update ''n1'' (node1, []) Mapping.empty)))
     = Some UnknownNode
   \<and> InitializeClusterSnapshotOrDie BasicClusterSnapshot [node1, node1, node2]
       [ghostPod, runningPod] Mapping.empty
     = Returned (Mapping.update ''n2'' (node2, [runningPod])
         (Mapping.update ''n2'' (node2, []) (Mapping.update ''n1'' (node1, []) Mapping.empty)))"
  by (simp add: snapshot_defs)

text \<open>
  C5. When a pod of the list has neither an assignment (\<^verbatim>\<open>Spec.NodeName\<close>) nor a
  nomination (\<^verbatim>\<open>Status.NominatedNodeName\<close>), the initialization panics, for every
  snapshot and every list of nodes: it does not return.
\<close>

theorem init_panics_without_target:
  "pod \<in> set pods \<Longrightarrow> NodeName (Spec pod) = '''' \<Longrightarrow> NominatedNodeName pod = '''' \<Longrightarrow>
   \<exists>err s'. InitializeClusterSnapshotOrDie snapshot nodes pods s = Panicked err s'"
  unfolding InitializeClusterSnapshotOrDie_def
  by (rule addPodsLoop_panics) (auto simp: hasTarget_def)

theorem init_panics_without_target_witness:
  "webPod \<in> set [runningPod, webPod, nominatedPod]
   \<and> NodeName (Spec webPod) = '''' \<and> NominatedNodeName webPod = ''''
   \<and> InitializeClusterSnapshotOrDie BasicClusterSnapshot [node1, node2]
       [runningPod, webPod, nominatedPod] Mapping.empty
     = Panicked None (Mapping.update ''n2'' (node2, [runningPod])
         (Mapping.update ''n2'' (node2, []) (Mapping.update ''n1'' (node1, []) Mapping.empty)))"
  using init_panics_without_target[of webPod "[runningPod, webPod, nominatedPod]"
      BasicClusterSnapshot "[node1, node2]" Mapping.empty]
  by (simp add: snapshot_defs)

text \<open>
  C6. The snapshot the initialization leaves is the one obtained by clearing, adding
  every node, and binding every pod up to the first one without a target, in order, to
  its \<open>bindTarget\<close>: the assignment when it is not empty, the nomination otherwise.
\<close>

theorem init_binds_by_precedence:
  "snapshotOf (InitializeClusterSnapshotOrDie snapshot nodes pods s) =
     fold (\<lambda>pod s. snd (AddPod snapshot pod (bindTarget pod) s)) (takeWhile hasTarget pods)
       (fold (\<lambda>node s. snd (AddNode snapshot node s)) nodes (Clear snapshot s))"
  by (simp add: InitializeClusterSnapshotOrDie_def addPodsLoop_fold addNodesLoop_fold)

text \<open>
  \<open>runningPod\<close> is assigned to \<open>n2\<close> and nominated for \<open>n1\<close>: it is bound to \<open>n2\<close>.
  \<open>nominatedPod\<close> is only nominated for \<open>n1\<close>: it is bound to \<open>n1\<close>.
\<close>

theorem init_binds_by_precedence_witness:
  "bindTarget runningPod = ''n2'' \<and> bindTarget nominatedPod = ''n1''
   \<and> InitializeClusterSnapshotOrDie BasicClusterSnapshot [node1, node2]
       [runningPod, nominatedPod] Mapping.empty
     = Returned (Mapping.update ''n1'' (node1, [nominatedPod])
         (Mapping.update ''n2'' (node2, [runningPod])
           (Mapping.update ''n2'' (node2, []) (Mapping.update ''n1'' (node1, []) Mapping.empty))))"
  using init_binds_by_precedence[of BasicClusterSnapshot "[node1, node2]"
      "[runningPod, nominatedPod]" Mapping.empty]
  by (simp add: snapshot_defs bindTarget_def)

end
